theory Spec2Isabelle
  imports Main
begin

section \<open>Python values used by \<open>ursabot/cli.py\<close>\<close>

text \<open>
  Exceptions are values. \<open>ClickException\<close> and \<open>UsageError\<close> are click's classes (the
  second a subclass of the first, with exit code 2 instead of 1); \<open>UrsabotConfigErrors\<close>
  is the module's own subclass of \<open>ClickException\<close>; \<open>ConfigErrors\<close> is buildbot's
  exception where the module does not catch it; the others are Python's built-in
  exceptions. These last two kinds reach the interpreter uncaught.
\<close>

datatype error =
    ClickException string
  | UsageError string
  | UrsabotConfigErrors "string list"
  | ConfigErrors "string list"
  | ValueError
  | TypeError
  | IndexError
  | RuntimeError
  | AssertionError

text \<open>The exit status of the process: click exits with the exception's \<open>exit_code\<close>,
  an uncaught Python exception ends the interpreter with status 1.\<close>

fun exit_code :: "error + unit \<Rightarrow> int" where
  "exit_code (Inr u) = 0"
| "exit_code (Inl (UsageError m)) = 2"
| "exit_code (Inl e) = 1"

text \<open>\<open>str(n)\<close> of a Python integer, as an f-string renders it.\<close>

definition digit_char :: "nat \<Rightarrow> char" where
  "digit_char d = ''0123456789'' ! d"

fun str_nat :: "nat \<Rightarrow> string" where
  "str_nat n = (if n < 10 then [digit_char n] else str_nat (n div 10) @ [digit_char (n mod 10)])"

declare str_nat.simps [simp del]

definition str_int :: "int \<Rightarrow> string" where
  "str_int i = (if i < 0 then CHR ''-'' # str_nat (nat (- i)) else str_nat (nat i))"

text \<open>\<open>s.startswith(p)\<close>, \<open>s.split(sep)\<close> for a one-character separator, and
  \<open>sep.join(xs)\<close>.\<close>

definition startswith :: "string \<Rightarrow> string \<Rightarrow> bool" where
  "startswith s p = (take (length p) s = p)"

fun str_split :: "char \<Rightarrow> string \<Rightarrow> string list" where
  "str_split sep [] = [[]]"
| "str_split sep (c # cs) =
     (if c = sep then [] # str_split sep cs
      else (case str_split sep cs of [] \<Rightarrow> [[c]] | w # ws \<Rightarrow> (c # w) # ws))"

fun join :: "string \<Rightarrow> string list \<Rightarrow> string" where
  "join sep [] = []"
| "join sep [x] = x"
| "join sep (x # y # ys) = x @ sep @ join sep (y # ys)"

text \<open>
  A Python \<open>dict\<close> with string keys, as the list of its items in insertion order.
  Storing under a key that is present replaces the value and keeps the key's place.
  \<open>dict(iterable)\<close> takes the elements one by one and raises \<open>ValueError\<close> at the
  first one whose length is not 2.
\<close>

type_synonym 'v pydict = "(string \<times> 'v) list"

fun dict_set :: "'v pydict \<Rightarrow> string \<Rightarrow> 'v \<Rightarrow> 'v pydict" where
  "dict_set [] k v = [(k, v)]"
| "dict_set ((k', v') # d) k v =
     (if k' = k then (k', v) # d else (k', v') # dict_set d k v)"

fun dict_update :: "string pydict \<Rightarrow> string list list \<Rightarrow> error + string pydict" where
  "dict_update d [] = Inr d"
| "dict_update d ([k, v] # es) = dict_update (dict_set d k v) es"
| "dict_update d (e # es) = Inl ValueError"

definition dict :: "string list list \<Rightarrow> error + string pydict" where
  "dict es = dict_update [] es"

text \<open>\<open>xs[i]\<close> on a Python list: the indices \<open>-len(xs)\<close> up to \<open>-1\<close> address the
  elements from the end, anything outside \<open>-len(xs) .. len(xs) - 1\<close> raises.\<close>

definition getitem :: "'a list \<Rightarrow> int \<Rightarrow> error + 'a" where
  "getitem xs i =
     (if 0 \<le> i \<and> i < int (length xs) then Inr (xs ! nat i)
      else if i < 0 \<and> - int (length xs) \<le> i then Inr (xs ! nat (int (length xs) + i))
      else Inl IndexError)"

subsection \<open>\<open>pathlib.Path\<close> on POSIX\<close>

text \<open>
  A pure POSIX path is its root (\<open>''''\<close>, \<open>''/''\<close> or \<open>''//''\<close>) and its name parts.
  \<open>splitroot\<close> and \<open>parse_parts\<close> follow pathlib's POSIX flavour: exactly two leading
  slashes are kept as the root \<open>//\<close>, any other number of them is the root \<open>/\<close>; empty
  parts and \<open>.\<close> parts are dropped, \<open>..\<close> parts are kept.
\<close>

record path =
  root :: string
  parts :: "string list"

definition splitroot :: "string \<Rightarrow> string \<times> string" where
  "splitroot part =
     (if part \<noteq> [] \<and> hd part = CHR ''/'' then
        (let stripped_part = dropWhile (\<lambda>c. c = CHR ''/'') part
         in if length part - length stripped_part = 2 then (''//'', stripped_part)
            else (''/'', stripped_part))
      else ('''', part))"

definition parse_parts :: "string \<Rightarrow> path" where
  "parse_parts s =
     (let (r, rel) = splitroot s
      in \<lparr>root = r, parts = filter (\<lambda>x. x \<noteq> [] \<and> x \<noteq> ''.'') (str_split (CHR ''/'') rel)\<rparr>)"

definition Path :: "string \<Rightarrow> path" where
  "Path s = parse_parts s"

text \<open>\<open>str(p)\<close>: the root followed by the parts joined with slashes, \<open>.\<close> for the empty
  path.\<close>

definition path_str :: "path \<Rightarrow> string" where
  "path_str p =
     (let s = root p @ join ''/'' (parts p) in if s = [] then ''.'' else s)"

definition is_absolute :: "path \<Rightarrow> bool" where
  "is_absolute p = (root p \<noteq> [])"

text \<open>
  \<open>Path.expanduser\<close>: only a relative path whose first part begins with \<open>~\<close> is changed;
  that part is replaced by the home directory of the user it names (the current user
  for a bare \<open>~\<close>); \<open>RuntimeError\<close> when there is none. The home directory is parsed as
  a path again, and an empty one contributes nothing.

  The lookup \<open>gethomedir\<close> is a parameter: it stands for what the Python in use and the
  operating system answer for the user named, \<open>None\<close> when they cannot tell. Up to
  Python 3.8 pathlib reads \<open>HOME\<close> or the password database itself and may answer the
  empty string (for an empty \<open>HOME\<close>); from Python 3.9 on it asks \<open>os.path.expanduser\<close>,
  which answers \<open>/\<close> in that case and never the empty string. What \<open>expanduser\<close> does
  with the answer is the same in both.
\<close>

definition expanduser :: "(string \<Rightarrow> string option) \<Rightarrow> path \<Rightarrow> error + path" where
  "expanduser gethomedir p =
     (if root p = [] \<and> parts p \<noteq> [] \<and> take 1 (hd (parts p)) = ''~'' then
        (case gethomedir (drop 1 (hd (parts p))) of
           None \<Rightarrow> Inl RuntimeError
         | Some homedir \<Rightarrow>
             (let h = parse_parts homedir
              in Inr \<lparr>root = root h, parts = parts h @ tl (parts p)\<rparr>))
      else Inr p)"

section \<open>The objects the commands work on\<close>

text \<open>
  \<open>click.style(text, fg=...)\<close> followed by \<open>click.echo\<close>: a line of console output is
  its colour (\<open>None\<close> for unstyled text) and its text.
\<close>

datatype color = Blue | Red | Green

type_synonym styled = "color option \<times> string"

text \<open>A builder's volumes are buildbot renderables: plain strings or \<open>Interpolate\<close>
  objects, which hold their format string uninterpreted until the build renders it.\<close>

datatype renderable = Plain string | Interpolate string

text \<open>
  A builder as the build command sees it: its \<open>name\<close>, whether it is an instance of
  \<open>DockerBuilder\<close>, its \<open>volumes\<close> list, and what \<open>str(builder)\<close> gives.
\<close>

record builder =
  name :: string
  docker :: bool
  volumes :: "renderable list"
  display :: string

record project =
  name :: string
  repo :: string
  builders :: "builder list"

text \<open>The source stamp handed to the master, a dict with exactly these five keys;
  \<open>revision\<close> is \<open>None\<close> when no commit was given.\<close>

record sourcestamp =
  codebase :: string
  repository :: string
  branch :: string
  revision :: "string option"
  project :: string

text \<open>The dict a build ends with: \<open>complete\<close>, and \<open>results\<close> (\<open>None\<close> is Python's
  \<open>None\<close>).\<close>

record build_result =
  complete :: bool
  results :: "int option"

text \<open>
  The state of the process that the build command reads and writes: the selected
  project with its builder objects, the class attribute \<open>Source.notReally\<close> of
  buildbot's source steps (\<open>None\<close> when the class has no such attribute), the console,
  the test masters constructed so far (each with its \<open>attach_on\<close> set), how many times
  a master was started, and the builds triggered.
\<close>

record world =
  proj :: project
  Source_notReally :: "bool option"
  console :: "styled list"
  masters :: "int set list"
  started :: nat
  triggered :: "(string \<times> sourcestamp \<times> string pydict) list"

text \<open>
  What the collaborators outside this module answer during one invocation: the home
  directory lookup, what the constructor of buildbot's \<open>Interpolate\<close> raises for a format
  string (\<open>None\<close> when it constructs the object), the configuration errors that
  constructing the test master raises (\<open>None\<close> when it succeeds), whether the master
  starts, the batches of log lines it hands to the log handler, and the result dict its
  build returns (\<open>None\<close> when the build raises or never returns).

  \<open>Interpolate\<close> parses its format string when it is constructed (it applies Python's
  \<open>%\<close> to it and then reads every key found), so a percent sign in a host path or in a
  destination can make the constructor raise: \<open>100%/x\<close> ends in a \<open>ValueError\<close>. Which
  strings it refuses, and with which exception, is buildbot's matter; the model takes
  the answer as given.
\<close>

record env =
  gethomedir :: "string \<Rightarrow> string option"
  interpolate_raises :: "string \<Rightarrow> error option"
  config_errors :: "string list option"
  master_starts :: bool
  log_records :: "string list list"
  build_reply :: "build_result option"

text \<open>The result codes and their names, from \<open>buildbot.process.results\<close>.\<close>

definition SUCCESS :: int where "SUCCESS = 0"
definition WARNINGS :: int where "WARNINGS = 1"
definition FAILURE :: int where "FAILURE = 2"
definition SKIPPED :: int where "SKIPPED = 3"
definition EXCEPTION :: int where "EXCEPTION = 4"
definition RETRY :: int where "RETRY = 5"
definition CANCELLED :: int where "CANCELLED = 6"

definition Results :: "string list" where
  "Results = [''success'', ''warnings'', ''failure'', ''skipped'', ''exception'',
              ''retry'', ''cancelled'']"

definition echo :: "styled \<Rightarrow> world \<Rightarrow> world" where
  "echo l w = w\<lparr>console := console w @ [l]\<rparr>"

section \<open>The log handler\<close>

text \<open>
  \<open>_handle_stdio_log\<close>: one echo per line. A line that starts with \<open>h\<close> is echoed in
  blue, one with \<open>e\<close> in red, one with \<open>o\<close> unstyled, each without its first character;
  any other line is echoed whole and unstyled.
\<close>

definition handle_line :: "string \<Rightarrow> styled" where
  "handle_line l =
     (if startswith l ''h'' then (Some Blue, drop 1 l)
      else if startswith l ''e'' then (Some Red, drop 1 l)
      else if startswith l ''o'' then (None, drop 1 l)
      else (None, l))"

fun handle_stdio_log :: "string list \<Rightarrow> world \<Rightarrow> world" where
  "handle_stdio_log [] w = w"
| "handle_stdio_log (l # newlines) w = handle_stdio_log newlines (echo (handle_line l) w)"

section \<open>Injecting local sources\<close>

text \<open>
  \<open>util.Interpolate(fmtstring)\<close>: the constructor raises what the environment says it
  raises for this format string, and gives the object otherwise.
\<close>

definition make_Interpolate :: "env \<Rightarrow> string \<Rightarrow> error + renderable" where
  "make_Interpolate e fmtstring =
     (case interpolate_raises e fmtstring of
        Some err \<Rightarrow> Inl err
      | None \<Rightarrow> Inr (Interpolate fmtstring))"

text \<open>The format string of one volume, the f-string of the loop body.\<close>

definition volume_format :: "path \<Rightarrow> string \<Rightarrow> string" where
  "volume_format src dst =
     path_str src @ '':%(prop:docker_workdir)s/%(prop:builddir)s/'' @ dst @ '':rw''"

text \<open>
  The loop of \<open>_use_local_sources\<close> over \<open>sources.items()\<close>. For each entry, in order:
  the source is passed through \<open>Path(src).expanduser()\<close>, the \<open>Interpolate\<close> object of
  the volume specification \<open>src:%(prop:docker_workdir)s/%(prop:builddir)s/dst:rw\<close> is
  constructed, and it is appended to the local list \<open>volumes\<close>. The first exception ends
  the loop.
\<close>

fun source_volumes :: "env \<Rightarrow> string pydict \<Rightarrow> error + renderable list" where
  "source_volumes e [] = Inr []"
| "source_volumes e ((src, dst) # sources) =
     (case expanduser (gethomedir e) (Path src) of
        Inl err \<Rightarrow> Inl err
      | Inr src' \<Rightarrow>
          (case make_Interpolate e (volume_format src' dst) of
             Inl err \<Rightarrow> Inl err
           | Inr v \<Rightarrow>
               (case source_volumes e sources of
                  Inl err \<Rightarrow> Inl err
                | Inr vs \<Rightarrow> Inr (v # vs))))"

text \<open>\<open>builder.volumes.extend(volumes)\<close> on the builder object at index \<open>i\<close> of the
  project's builders.\<close>

definition extend_volumes :: "nat \<Rightarrow> renderable list \<Rightarrow> world \<Rightarrow> world" where
  "extend_volumes i vs w =
     (let p = proj w; b = builders p ! i
      in w\<lparr>proj := p\<lparr>builders := (builders p)[i := b\<lparr>volumes := volumes b @ vs\<rparr>]\<rparr>\<rparr>)"

text \<open>
  \<open>_use_local_sources(builder, sources)\<close>: the volumes are computed first (an exception
  in the loop leaves everything as it was), then added to the builder, then the
  assertion is checked, and last \<open>Source.notReally\<close> is set on the class.
\<close>

definition use_local_sources ::
  "env \<Rightarrow> nat \<Rightarrow> string pydict \<Rightarrow> world \<Rightarrow> (error + unit) \<times> world" where
  "use_local_sources e i sources w =
     (case source_volumes e sources of
        Inl err \<Rightarrow> (Inl err, w)
      | Inr vs \<Rightarrow>
          (let w' = extend_volumes i vs w
           in case Source_notReally w' of
                None \<Rightarrow> (Inl AssertionError, w')
              | Some old \<Rightarrow> (Inr (), w'\<lparr>Source_notReally := Some True\<rparr>)))"

section \<open>The build command\<close>

text \<open>
  Modelled from the spec: \<open>project.builder(name=...)\<close>, the builder lookup-by-name
  operation of the project configuration, which is not part of this module. It gives
  the project's builder object of that name (here its index among the project's
  builders, which stands for the reference to the object) and raises \<open>KeyError\<close>
  (\<open>None\<close>) when there is none.
\<close>

fun find_builder :: "builder list \<Rightarrow> string \<Rightarrow> nat option" where
  "find_builder [] n = None"
| "find_builder (b # bs) n =
     (if builder.name b = n then Some 0 else map_option Suc (find_builder bs n))"

definition project_builder :: "project \<Rightarrow> string \<Rightarrow> nat option" where
  "project_builder p n = find_builder (builders p) n"

text \<open>The message of the exception raised for an unknown builder name.\<close>

definition available :: "project \<Rightarrow> string" where
  "available p = join ''\<newline>'' (map (\<lambda>b. '' - '' @ builder.name b) (builders p))"

definition no_such_builder :: "project \<Rightarrow> string \<Rightarrow> string" where
  "no_such_builder p builder_name =
     ''Project '' @ project.name p @ '' doesn'' @ [CHR 0x27] @ ''t have a builder named ''
       @ [CHR 0x60] @ builder_name @ [CHR 0x60]
       @ ''.\<newline> Select one from the following list: \<newline>'' @ available p"

text \<open>
  Local source directories become docker volumes: nothing happens for an empty mapping;
  a builder that is not a \<open>DockerBuilder\<close> is refused with a \<open>UsageError\<close>.
\<close>

definition mount_sources ::
  "env \<Rightarrow> nat \<Rightarrow> string pydict \<Rightarrow> world \<Rightarrow> (error + unit) \<times> world" where
  "mount_sources e i sources w =
     (if sources \<noteq> [] then
        (if \<not> docker (builders (proj w) ! i) then
           (Inl (UsageError
              ''Mounting source directories is a feature only available for docker builders.''),
            w)
         else use_local_sources e i sources w)
      else (Inr (), w))"

text \<open>The source stamp: a pull request replaces the branch, \<open>repo or project.repo\<close>
  takes the project's repository when \<open>repo\<close> is \<open>None\<close> or empty.\<close>

definition construct_sourcestamp ::
  "project \<Rightarrow> string option \<Rightarrow> string \<Rightarrow> string option \<Rightarrow> int option \<Rightarrow> sourcestamp" where
  "construct_sourcestamp p opt_repo opt_branch commit pull_request =
     (let branch' = (case pull_request of
                       None \<Rightarrow> opt_branch
                     | Some pr \<Rightarrow> ''refs/pull/'' @ str_int pr @ ''/merge'')
      in \<lparr>codebase = [],
          repository = (case opt_repo of
                          None \<Rightarrow> project.repo p
                        | Some r \<Rightarrow> if r = [] then project.repo p else r),
          branch = branch',
          revision = commit,
          project = project.name p\<rparr>)"

text \<open>
  The coroutine \<open>run\<close> inside the reactor: the master is entered (started), the build
  is triggered once, the log handler receives the log lines, and \<open>result\<close> is replaced
  by what the build returns. When the master does not start or the build does not
  return, \<open>result\<close> keeps its initial value, in which \<open>complete\<close> is \<open>False\<close>.
\<close>

definition initial_result :: build_result where
  "initial_result = \<lparr>complete = False, results = None\<rparr>"

definition run ::
  "env \<Rightarrow> string \<Rightarrow> sourcestamp \<Rightarrow> string pydict \<Rightarrow> world \<Rightarrow> build_result \<times> world" where
  "run e builder_name stamp properties w =
     (if \<not> master_starts e then (initial_result, w)
      else
        (let w1 = w\<lparr>started := started w + 1,
                    triggered := triggered w @ [(builder_name, stamp, properties)]\<rparr>;
             w2 = fold handle_stdio_log (log_records e) w1
         in (case build_reply e of None \<Rightarrow> initial_result | Some r \<Rightarrow> r, w2)))"

text \<open>The last lines of the command: the result of the build becomes the verdict.\<close>

definition verdict :: "build_result \<Rightarrow> world \<Rightarrow> (error + unit) \<times> world" where
  "verdict result w =
     (if \<not> complete result then (Inl (ClickException ''Build has not completed!''), w)
      else
        (case results result of
           None \<Rightarrow> (Inl TypeError, w)
         | Some state \<Rightarrow>
             if state = SUCCESS \<or> state = WARNINGS then
               (Inr (), echo (Some Green, ''Build successful!'') w)
             else
               (case getitem Results state of
                  Inl err \<Rightarrow> (Inl err, w)
                | Inr statestring \<Rightarrow>
                    (Inl (ClickException (''Build has failed with state '' @ statestring)),
                     w))))"

text \<open>
  \<open>project_build\<close>, step by step as the source has it: the builder lookup, the two
  \<open>dict(p.split(...) for p in ...)\<close> conversions (sources first), the source mounts,
  the source stamp, the test master, the run, the verdict.
\<close>

definition project_build ::
  "env \<Rightarrow> string \<Rightarrow> string option \<Rightarrow> string \<Rightarrow> string option \<Rightarrow> int option \<Rightarrow>
   string list \<Rightarrow> string list \<Rightarrow> bool \<Rightarrow> world \<Rightarrow> (error + unit) \<times> world" where
  "project_build e builder_name opt_repo opt_branch commit pull_request properties sources
     attach_on_failure w =
     (case project_builder (proj w) builder_name of
        None \<Rightarrow> (Inl (ClickException (no_such_builder (proj w) builder_name)), w)
      | Some i \<Rightarrow>
          (let w1 = echo (None, ''Triggering builder: '' @ display (builders (proj w) ! i)) w
           in case dict (map (str_split (CHR '':'')) sources) of
                Inl err \<Rightarrow> (Inl err, w1)
              | Inr sources' \<Rightarrow>
                  (case dict (map (str_split (CHR ''='')) properties) of
                     Inl err \<Rightarrow> (Inl err, w1)
                   | Inr properties' \<Rightarrow>
                       (case mount_sources e i sources' w1 of
                          (Inl err, w2) \<Rightarrow> (Inl err, w2)
                        | (Inr u, w2) \<Rightarrow>
                            (let stamp = construct_sourcestamp (proj w2) opt_repo opt_branch commit
                                           pull_request;
                                 attach_on = (if attach_on_failure then {FAILURE, EXCEPTION}
                                              else {})
                             in case config_errors e of
                                  Some errs \<Rightarrow> (Inl (UrsabotConfigErrors errs), w2)
                                | None \<Rightarrow>
                                    (let w3 = w2\<lparr>masters := masters w2 @ [attach_on]\<rparr>;
                                         (result, w4) =
                                            run e (builder.name (builders (proj w3) ! i))
                                              stamp properties' w3
                                     in verdict result w4))))))"

section \<open>The image filter\<close>

text \<open>
  The \<open>docker\<close> command group builds one filter from its options: every option is a
  pattern (\<open>*\<close> by default), \<open>--no-variant\<close> replaces the variant pattern by \<open>None\<close>, and
  the three platform options form a nested filter. \<open>Matching\<close> and \<open>Filter\<close> themselves
  live in the \<open>utils\<close> module, which is not part of this source file.
\<close>

datatype predicate = Matching "string option" | Filter "(string \<times> predicate) list"

definition image_filter ::
  "string \<Rightarrow> string \<Rightarrow> string \<Rightarrow> bool \<Rightarrow> string \<Rightarrow> string \<Rightarrow> string \<Rightarrow> predicate" where
  "image_filter name_pat tag_pat variant_pat no_variant arch system distro =
     (let variant' = (if no_variant then None else Some variant_pat)
      in Filter [(''name'', Matching (Some name_pat)),
                 (''tag'', Matching (Some tag_pat)),
                 (''variant'', Matching variant'),
                 (''platform'', Filter [(''arch'', Matching (Some arch)),
                                        (''system'', Matching (Some system)),
                                        (''distro'', Matching (Some distro))])])"

text \<open>
  An artifact descriptor is a group of named attributes; an attribute is a string or
  a nested group (\<open>platform\<close>); an attribute that is absent (\<open>variant\<close> may be) is not
  listed.
\<close>

datatype attr = Str string | Group "(string \<times> attr) list"

text \<open>
  Modelled from the spec: wildcard matching of a pattern against a string, where \<open>*\<close>
  stands for any sequence of characters (the empty one too), \<open>?\<close> for exactly one
  character, and every other character for itself.
\<close>

fun glob :: "string \<Rightarrow> string \<Rightarrow> bool" where
  "glob [] [] = True"
| "glob [] (c # cs) = False"
| "glob (p # ps) [] = (p = CHR ''*'' \<and> glob ps [])"
| "glob (p # ps) (c # cs) =
     (if p = CHR ''*'' then glob ps (c # cs) \<or> glob (p # ps) cs
      else (p = CHR ''?'' \<or> p = c) \<and> glob ps cs)"

text \<open>
  Modelled from the spec: \<open>matches(descriptor, predicate)\<close>, the call of a \<open>Filter\<close> or
  \<open>Matching\<close> object of the \<open>utils\<close> module on an attribute. The pattern \<open>None\<close> is the
  unset marker: the attribute must be absent. A string pattern matches a string
  attribute by wildcard matching; an attribute that the predicate constrains and the
  descriptor lacks is a non-match, never a failure. A nested predicate matches a
  group when every key it lists matches the group's attribute of that key; what it
  does not list is not looked at.
\<close>

fun lookup :: "(string \<times> 'a) list \<Rightarrow> string \<Rightarrow> 'a option" where
  "lookup [] k = None"
| "lookup ((k', v) # kvs) k = (if k' = k then Some v else lookup kvs k)"

definition attributes :: "attr option \<Rightarrow> (string \<times> attr) list" where
  "attributes a = (case a of Some (Group g) \<Rightarrow> g | _ \<Rightarrow> [])"

fun matches :: "attr option \<Rightarrow> predicate \<Rightarrow> bool" where
  "matches None (Matching None) = True"
| "matches (Some a) (Matching None) = False"
| "matches (Some (Str v)) (Matching (Some pat)) = glob pat v"
| "matches a (Matching (Some pat)) = False"
| "matches a (Filter ps) = list_all (\<lambda>kp. matches (lookup (attributes a) (fst kp)) (snd kp)) ps"

section \<open>Example objects\<close>

text \<open>A project with a plain builder and a docker builder, a fresh process state, and
  an environment in which the home directory of the current user is \<open>/home/me\<close>, no
  other user has one, and the build succeeds. Its \<open>Interpolate\<close> constructs the object
  for a format string whose only percent signs are the two of the property
  substitutions, which buildbot accepts, and raises \<open>ValueError\<close> for any other, as
  buildbot does for \<open>100%/x\<close>.\<close>

definition example_project :: project where
  "example_project =
     \<lparr>project.name = ''arrow'', repo = ''https://example.org/arrow.git'',
      builders = [\<lparr>builder.name = ''test-builder'', docker = False,
                   volumes = [Plain ''cache:/cache''], display = ''<test-builder>''\<rparr>,
                  \<lparr>builder.name = ''docker-builder'', docker = True,
                   volumes = [], display = ''<docker-builder>''\<rparr>]\<rparr>"

definition example_world :: world where
  "example_world =
     \<lparr>proj = example_project, Source_notReally = Some False, console = [],
      masters = [], started = 0, triggered = []\<rparr>"

definition example_env :: env where
  "example_env =
     \<lparr>gethomedir = (\<lambda>user. if user = [] then Some ''/home/me'' else None),
      interpolate_raises =
        (\<lambda>fmtstring. if count_list fmtstring (CHR ''%'') = 2 then None else Some ValueError),
      config_errors = None, master_starts = True,
      log_records = [[''hstarting'', ''ocompiling''], [''ewarning: unused'', ''done'']],
      build_reply = Some \<lparr>complete = True, results = Some 0\<rparr>\<rparr>"

definition example_image :: "(string \<times> attr) list" where
  "example_image =
     [(''name'', Str ''cpp''), (''tag'', Str ''worker''),
      (''platform'', Group [(''arch'', Str ''amd64''), (''system'', Str ''linux''),
                            (''distro'', Str ''ubuntu'')])]"

section \<open>Auxiliary facts\<close>

lemma str_split_not_Nil: "str_split sep s \<noteq> []"
  by (induction s) (auto split: list.splits)

lemma length_str_split: "length (str_split sep s) = Suc (count_list s sep)"
  by (induction s) (auto simp: str_split_not_Nil split: list.splits)

lemma dict_update_bad:
  "\<exists>x\<in>set es. length x \<noteq> 2 \<Longrightarrow> dict_update d es = Inl ValueError"
  by (induction d es rule: dict_update.induct) auto

lemma dict_update_good:
  "\<forall>x\<in>set es. length x = 2 \<Longrightarrow> \<exists>d'. dict_update d es = Inr d' \<and> (d' = [] \<longleftrightarrow> d = [] \<and> es = [])"
proof (induction d es rule: dict_update.induct)
  case (2 d k v es)
  have "dict_set d k v \<noteq> []" by (cases d) (auto split: if_splits)
  with 2 show ?case by auto
qed auto

lemma dict_split_bad:
  "\<exists>x\<in>set xs. count_list x sep \<noteq> 1 \<Longrightarrow> dict (map (str_split sep) xs) = Inl ValueError"
  unfolding dict_def by (rule dict_update_bad) (auto simp: length_str_split)

lemma dict_split_good:
  assumes "\<forall>x\<in>set xs. count_list x sep = 1"
  shows "\<exists>d. dict (map (str_split sep) xs) = Inr d \<and> (d = [] \<longleftrightarrow> xs = [])"
proof -
  have "\<forall>x\<in>set (map (str_split sep) xs). length x = 2"
    using assms by (auto simp: length_str_split)
  from dict_update_good [OF this, of "[]"] show ?thesis by (simp add: dict_def)
qed

lemma find_builder_None: "find_builder bs n = None \<longleftrightarrow> n \<notin> builder.name ` set bs"
  by (induction bs) auto

lemma find_builder_Some:
  "find_builder bs n = Some i \<Longrightarrow> i < length bs \<and> builder.name (bs ! i) = n"
  by (induction bs arbitrary: i) (auto split: if_splits)

lemma handle_stdio_log_console:
  "handle_stdio_log ls w = w\<lparr>console := console w @ map handle_line ls\<rparr>"
  by (induction ls arbitrary: w) (auto simp: echo_def)

lemma fold_handle_stdio_log:
  "fold handle_stdio_log bs w = w\<lparr>console := console w @ map handle_line (concat bs)\<rparr>"
  by (induction bs arbitrary: w) (auto simp: handle_stdio_log_console)


lemma echo_fields [simp]:
  "proj (echo l w) = proj w" "triggered (echo l w) = triggered w"
  "masters (echo l w) = masters w" "started (echo l w) = started w"
  "Source_notReally (echo l w) = Source_notReally w"
  "console (echo l w) = console w @ [l]"
  by (simp_all add: echo_def)

lemma extend_volumes_fields [simp]:
  "triggered (extend_volumes i vs w) = triggered w"
  "masters (extend_volumes i vs w) = masters w"
  "started (extend_volumes i vs w) = started w"
  "console (extend_volumes i vs w) = console w"
  "Source_notReally (extend_volumes i vs w) = Source_notReally w"
  "project.name (proj (extend_volumes i vs w)) = project.name (proj w)"
  "repo (proj (extend_volumes i vs w)) = repo (proj w)"
  by (simp_all add: extend_volumes_def Let_def)

lemma extend_volumes_builders:
  "builders (proj (extend_volumes i vs w)) =
     (builders (proj w))[i := (builders (proj w) ! i)\<lparr>volumes := volumes (builders (proj w) ! i) @ vs\<rparr>]"
  by (simp add: extend_volumes_def Let_def)

lemma extend_volumes_names [simp]:
  "builder.name (builders (proj (extend_volumes i vs w)) ! j) = builder.name (builders (proj w) ! j)"
  by (cases "i < length (builders (proj w))")
     (simp_all add: extend_volumes_builders nth_list_update not_less list_update_beyond)

lemma use_local_sources_frame:
  assumes "use_local_sources e i s w = (x, w')"
  shows "triggered w' = triggered w" "masters w' = masters w" "started w' = started w"
    "console w' = console w" "project.name (proj w') = project.name (proj w)"
    "repo (proj w') = repo (proj w)"
    "builder.name (builders (proj w') ! j) = builder.name (builders (proj w) ! j)"
  using assms
  by (auto simp: use_local_sources_def Let_def split: sum.splits option.splits)

lemma mount_sources_frame:
  assumes "mount_sources e i s w = (x, w')"
  shows "triggered w' = triggered w" "masters w' = masters w" "started w' = started w"
    "console w' = console w" "project.name (proj w') = project.name (proj w)"
    "repo (proj w') = repo (proj w)"
    "builder.name (builders (proj w') ! j) = builder.name (builders (proj w) ! j)"
  using assms use_local_sources_frame [of e i s w x w']
  by (auto simp: mount_sources_def split: if_splits)

lemma verdict_frame:
  assumes "verdict r w = (x, w')"
  shows "triggered w' = triggered w" "masters w' = masters w" "started w' = started w"
    "proj w' = proj w" "Source_notReally w' = Source_notReally w"
  using assms
  by (auto simp: verdict_def split: if_splits option.splits sum.splits)

lemma run_frame:
  assumes "run e n st ps w = (r, w')"
  shows "masters w' = masters w" "proj w' = proj w" "Source_notReally w' = Source_notReally w"
    "triggered w' = triggered w \<or> triggered w' = triggered w @ [(n, st, ps)]"
  using assms
  by (auto simp: run_def Let_def fold_handle_stdio_log split: if_splits)

lemma construct_sourcestamp_cong:
  "project.name p = project.name p' \<Longrightarrow> repo p = repo p' \<Longrightarrow>
   construct_sourcestamp p r b c pr = construct_sourcestamp p' r b c pr"
  by (simp add: construct_sourcestamp_def split: option.splits)

lemma project_build_triggered:
  "triggered (snd (project_build e bn r b c pr props srcs a w)) = triggered w \<or>
   (\<exists>n ps. triggered (snd (project_build e bn r b c pr props srcs a w)) =
       triggered w @ [(n, construct_sourcestamp (proj w) r b c pr, ps)])"
proof (cases "project_builder (proj w) bn")
  case None
  then show ?thesis by (simp add: project_build_def)
next
  case (Some i)
  let ?w1 = "echo (None, ''Triggering builder: '' @ display (builders (proj w) ! i)) w"
  show ?thesis
  proof (cases "dict (map (str_split (CHR '':'')) srcs)")
    case (Inl err)
    with Some show ?thesis by (simp add: project_build_def)
  next
    case srcs': (Inr sources')
    show ?thesis
    proof (cases "dict (map (str_split (CHR ''='')) props)")
      case (Inl err)
      with Some srcs' show ?thesis by (simp add: project_build_def)
    next
      case props': (Inr properties')
      obtain x w2 where m: "mount_sources e i sources' ?w1 = (x, w2)" by force
      have fr: "triggered w2 = triggered w" "project.name (proj w2) = project.name (proj w)"
        "repo (proj w2) = repo (proj w)"
        using mount_sources_frame [OF m] by simp_all
      have st: "construct_sourcestamp (proj w2) r b c pr = construct_sourcestamp (proj w) r b c pr"
        by (rule construct_sourcestamp_cong) (simp_all add: fr)
      show ?thesis
      proof (cases x)
        case (Inl err)
        with Some srcs' props' m fr show ?thesis
          by (simp add: project_build_def)
      next
        case (Inr u)
        show ?thesis
        proof (cases "config_errors e")
          case (Some errs)
          with \<open>project_builder (proj w) bn = Some i\<close> srcs' props' m fr Inr show ?thesis
            by (simp add: project_build_def)
        next
          case None
          let ?w3 = "w2\<lparr>masters := masters w2 @ [if a then {FAILURE, EXCEPTION} else {}]\<rparr>"
          obtain res w4 where r: "run e (builder.name (builders (proj ?w3) ! i))
               (construct_sourcestamp (proj w2) r b c pr) properties' ?w3 = (res, w4)" by force
          obtain y w5 where v: "verdict res w4 = (y, w5)" by force
          have pb: "project_build e bn r b c pr props srcs a w = (y, w5)"
            using \<open>project_builder (proj w) bn = Some i\<close> srcs' props' m Inr None r v
            by (simp add: project_build_def)
          have "triggered ?w3 = triggered w" by (simp add: fr)
          with run_frame(4) [OF r] verdict_frame(1) [OF v] st pb show ?thesis
            by auto
        qed
      qed
    qed
  qed
qed

section \<open>The verdict\<close>

lemma fst_verdict: "fst (verdict r w) = fst (verdict r w')"
  by (simp add: verdict_def split: option.splits sum.splits)

lemma fst_run:
  "fst (run e n st ps w) =
     (if master_starts e then (case build_reply e of None \<Rightarrow> initial_result | Some x \<Rightarrow> x)
      else initial_result)"
  by (simp add: run_def Let_def)

lemma project_build_reaches_verdict:
  assumes "project_builder (proj w) bn = Some i"
    and "dict (map (str_split (CHR '':'')) srcs) = Inr sources'"
    and "dict (map (str_split (CHR ''='')) props) = Inr properties'"
    and "mount_sources e i sources'
           (echo (None, ''Triggering builder: '' @ display (builders (proj w) ! i)) w) = (Inr u, w2)"
    and "config_errors e = None"
  shows "\<exists>w4. project_build e bn orepo obranch commit pr props srcs a w =
           verdict (if master_starts e
                    then (case build_reply e of None \<Rightarrow> initial_result | Some x \<Rightarrow> x)
                    else initial_result) w4"
proof -
  let ?w3 = "w2\<lparr>masters := masters w2 @ [if a then {FAILURE, EXCEPTION} else {}]\<rparr>"
  let ?run = "run e (builder.name (builders (proj ?w3) ! i))
                (construct_sourcestamp (proj w2) orepo obranch commit pr) properties' ?w3"
  have "project_build e bn orepo obranch commit pr props srcs a w = verdict (fst ?run) (snd ?run)"
    using assms by (simp add: project_build_def split: prod.splits)
  then show ?thesis by (auto simp: fst_run)
qed

text \<open>
  Claim C1. A completed build whose result code is \<open>SUCCESS\<close> or \<open>WARNINGS\<close> ends the
  command normally (exit status 0) after the message \<open>Build successful!\<close> is echoed in
  green; one whose result code is \<open>FAILURE\<close> or \<open>EXCEPTION\<close> ends it with a
  \<open>ClickException\<close> (a non-zero exit status) whose message carries the name of the
  result code, \<open>failure\<close> or \<open>exception\<close>; a build whose result is not complete ends it
  with the \<open>ClickException\<close> \<open>Build has not completed!\<close>, a non-zero exit status,
  whatever \<open>results\<close> holds.

  This holds of the last lines of the command, taken alone, and of the command as a
  whole: whenever the build command gets as far as its test master (the builder
  exists, the flags convert, the mounts if any are injected, the master is
  constructed), how it ends is decided by the result of the build in this way, and a
  master that does not start or a build that does not return leaves the result
  incomplete.
\<close>

theorem verdict_exit_status:
  "(complete r \<and> (results r = Some SUCCESS \<or> results r = Some WARNINGS) \<longrightarrow>
      verdict r w = (Inr (), echo (Some Green, ''Build successful!'') w) \<and>
      exit_code (fst (verdict r w)) = 0) \<and>
   (complete r \<and> results r = Some FAILURE \<longrightarrow>
      verdict r w = (Inl (ClickException ''Build has failed with state failure''), w) \<and>
      exit_code (fst (verdict r w)) \<noteq> 0) \<and>
   (complete r \<and> results r = Some EXCEPTION \<longrightarrow>
      verdict r w = (Inl (ClickException ''Build has failed with state exception''), w) \<and>
      exit_code (fst (verdict r w)) \<noteq> 0) \<and>
   (\<not> complete r \<longrightarrow>
      verdict r w = (Inl (ClickException ''Build has not completed!''), w) \<and>
      exit_code (fst (verdict r w)) \<noteq> 0) \<and>
   (project_builder (proj w) bn = Some i \<and>
    dict (map (str_split (CHR '':'')) srcs) = Inr sources' \<and>
    dict (map (str_split (CHR ''='')) props) = Inr properties' \<and>
    mount_sources e i sources'
      (echo (None, ''Triggering builder: '' @ display (builders (proj w) ! i)) w) = (Inr u, wm) \<and>
    config_errors e = None \<longrightarrow>
      (master_starts e \<and> build_reply e = Some r \<and> complete r \<and>
       (results r = Some SUCCESS \<or> results r = Some WARNINGS) \<longrightarrow>
         fst (project_build e bn orepo obranch commit pr props srcs a w) = Inr () \<and>
         exit_code (fst (project_build e bn orepo obranch commit pr props srcs a w)) = 0 \<and>
         console (snd (project_build e bn orepo obranch commit pr props srcs a w)) \<noteq> [] \<and>
         last (console (snd (project_build e bn orepo obranch commit pr props srcs a w))) =
           (Some Green, ''Build successful!'')) \<and>
      (master_starts e \<and> build_reply e = Some r \<and> complete r \<and> results r = Some FAILURE \<longrightarrow>
         fst (project_build e bn orepo obranch commit pr props srcs a w) =
           Inl (ClickException ''Build has failed with state failure'') \<and>
         exit_code (fst (project_build e bn orepo obranch commit pr props srcs a w)) \<noteq> 0) \<and>
      (master_starts e \<and> build_reply e = Some r \<and> complete r \<and> results r = Some EXCEPTION \<longrightarrow>
         fst (project_build e bn orepo obranch commit pr props srcs a w) =
           Inl (ClickException ''Build has failed with state exception'') \<and>
         exit_code (fst (project_build e bn orepo obranch commit pr props srcs a w)) \<noteq> 0) \<and>
      (\<not> master_starts e \<or> build_reply e = None \<or> (build_reply e = Some r \<and> \<not> complete r) \<longrightarrow>
         fst (project_build e bn orepo obranch commit pr props srcs a w) =
           Inl (ClickException ''Build has not completed!'') \<and>
         exit_code (fst (project_build e bn orepo obranch commit pr props srcs a w)) \<noteq> 0))"
proof -
  have v: "(complete r \<and> (results r = Some SUCCESS \<or> results r = Some WARNINGS) \<longrightarrow>
      verdict r w = (Inr (), echo (Some Green, ''Build successful!'') w) \<and>
      exit_code (fst (verdict r w)) = 0) \<and>
   (complete r \<and> results r = Some FAILURE \<longrightarrow>
      verdict r w = (Inl (ClickException ''Build has failed with state failure''), w) \<and>
      exit_code (fst (verdict r w)) \<noteq> 0) \<and>
   (complete r \<and> results r = Some EXCEPTION \<longrightarrow>
      verdict r w = (Inl (ClickException ''Build has failed with state exception''), w) \<and>
      exit_code (fst (verdict r w)) \<noteq> 0) \<and>
   (\<not> complete r \<longrightarrow>
      verdict r w = (Inl (ClickException ''Build has not completed!''), w) \<and>
      exit_code (fst (verdict r w)) \<noteq> 0)" for r w
    by (auto simp: verdict_def getitem_def Results_def SUCCESS_def WARNINGS_def FAILURE_def
        EXCEPTION_def)
  have c: "(master_starts e \<and> build_reply e = Some r \<and> complete r \<and>
       (results r = Some SUCCESS \<or> results r = Some WARNINGS) \<longrightarrow>
         fst (project_build e bn orepo obranch commit pr props srcs a w) = Inr () \<and>
         exit_code (fst (project_build e bn orepo obranch commit pr props srcs a w)) = 0 \<and>
         console (snd (project_build e bn orepo obranch commit pr props srcs a w)) \<noteq> [] \<and>
         last (console (snd (project_build e bn orepo obranch commit pr props srcs a w))) =
           (Some Green, ''Build successful!'')) \<and>
      (master_starts e \<and> build_reply e = Some r \<and> complete r \<and> results r = Some FAILURE \<longrightarrow>
         fst (project_build e bn orepo obranch commit pr props srcs a w) =
           Inl (ClickException ''Build has failed with state failure'') \<and>
         exit_code (fst (project_build e bn orepo obranch commit pr props srcs a w)) \<noteq> 0) \<and>
      (master_starts e \<and> build_reply e = Some r \<and> complete r \<and> results r = Some EXCEPTION \<longrightarrow>
         fst (project_build e bn orepo obranch commit pr props srcs a w) =
           Inl (ClickException ''Build has failed with state exception'') \<and>
         exit_code (fst (project_build e bn orepo obranch commit pr props srcs a w)) \<noteq> 0) \<and>
      (\<not> master_starts e \<or> build_reply e = None \<or> (build_reply e = Some r \<and> \<not> complete r) \<longrightarrow>
         fst (project_build e bn orepo obranch commit pr props srcs a w) =
           Inl (ClickException ''Build has not completed!'') \<and>
         exit_code (fst (project_build e bn orepo obranch commit pr props srcs a w)) \<noteq> 0)"
    if h: "project_builder (proj w) bn = Some i"
      "dict (map (str_split (CHR '':'')) srcs) = Inr sources'"
      "dict (map (str_split (CHR ''='')) props) = Inr properties'"
      "mount_sources e i sources'
         (echo (None, ''Triggering builder: '' @ display (builders (proj w) ! i)) w) = (Inr u, wm)"
      "config_errors e = None"
  proof -
    from project_build_reaches_verdict [OF h, of orepo obranch commit pr a]
    obtain w4 where pb: "project_build e bn orepo obranch commit pr props srcs a w =
           verdict (if master_starts e
                    then (case build_reply e of None \<Rightarrow> initial_result | Some x \<Rightarrow> x)
                    else initial_result) w4"
      by blast
    have i: "\<not> complete initial_result" by (simp add: initial_result_def)
    show ?thesis
      using v [of r w4] v [of initial_result w4] i
      by (auto simp: pb echo_def)
  qed
  from v [of r w] c show ?thesis by blast
qed

text \<open>The witness: the five kinds of result, each at a concrete result dict, and the
  build command on the plain builder of the example project with a build that ends in
  each of them, or that does not return.\<close>

theorem verdict_exit_status_witness:
  "exit_code (fst (verdict \<lparr>complete = True, results = Some 0\<rparr> example_world)) = 0 \<and>
   exit_code (fst (verdict \<lparr>complete = True, results = Some 1\<rparr> example_world)) = 0 \<and>
   verdict \<lparr>complete = True, results = Some 2\<rparr> example_world =
     (Inl (ClickException ''Build has failed with state failure''), example_world) \<and>
   verdict \<lparr>complete = True, results = Some 4\<rparr> example_world =
     (Inl (ClickException ''Build has failed with state exception''), example_world) \<and>
   verdict \<lparr>complete = False, results = Some 0\<rparr> example_world =
     (Inl (ClickException ''Build has not completed!''), example_world) \<and>
   exit_code (fst (project_build example_env ''test-builder'' None ''master'' None None [] []
       False example_world)) = 0 \<and>
   last (console (snd (project_build example_env ''test-builder'' None ''master'' None None [] []
       False example_world))) = (Some Green, ''Build successful!'') \<and>
   fst (project_build (example_env\<lparr>build_reply := Some \<lparr>complete = True, results = Some 2\<rparr>\<rparr>)
       ''test-builder'' None ''master'' None None [] [] False example_world) =
     Inl (ClickException ''Build has failed with state failure'') \<and>
   fst (project_build (example_env\<lparr>build_reply := Some \<lparr>complete = True, results = Some 4\<rparr>\<rparr>)
       ''test-builder'' None ''master'' None None [] [] False example_world) =
     Inl (ClickException ''Build has failed with state exception'') \<and>
   fst (project_build (example_env\<lparr>build_reply := Some \<lparr>complete = False, results = Some 0\<rparr>\<rparr>)
       ''test-builder'' None ''master'' None None [] [] False example_world) =
     Inl (ClickException ''Build has not completed!'') \<and>
   fst (project_build (example_env\<lparr>build_reply := None\<rparr>)
       ''test-builder'' None ''master'' None None [] [] False example_world) =
     Inl (ClickException ''Build has not completed!'')"
  using verdict_exit_status [where r = "\<lparr>complete = True, results = Some 0\<rparr>"
      and w = example_world and e = example_env and bn = "''test-builder''" and i = 0
      and srcs = "[]" and props = "[]" and sources' = "[]" and properties' = "[]"
      and u = "()" and wm = "echo (None, ''Triggering builder: <test-builder>'') example_world"
      and orepo = None and obranch = "''master''" and commit = None and pr = None and a = False]
    verdict_exit_status [where r = "\<lparr>complete = True, results = Some 1\<rparr>"
      and w = example_world]
    verdict_exit_status [where r = "\<lparr>complete = True, results = Some 2\<rparr>"
      and w = example_world
      and e = "example_env\<lparr>build_reply := Some \<lparr>complete = True, results = Some 2\<rparr>\<rparr>"
      and bn = "''test-builder''" and i = 0
      and srcs = "[]" and props = "[]" and sources' = "[]" and properties' = "[]"
      and u = "()" and wm = "echo (None, ''Triggering builder: <test-builder>'') example_world"
      and orepo = None and obranch = "''master''" and commit = None and pr = None and a = False]
    verdict_exit_status [where r = "\<lparr>complete = True, results = Some 4\<rparr>"
      and w = example_world
      and e = "example_env\<lparr>build_reply := Some \<lparr>complete = True, results = Some 4\<rparr>\<rparr>"
      and bn = "''test-builder''" and i = 0
      and srcs = "[]" and props = "[]" and sources' = "[]" and properties' = "[]"
      and u = "()" and wm = "echo (None, ''Triggering builder: <test-builder>'') example_world"
      and orepo = None and obranch = "''master''" and commit = None and pr = None and a = False]
    verdict_exit_status [where r = "\<lparr>complete = False, results = Some 0\<rparr>"
      and w = example_world
      and e = "example_env\<lparr>build_reply := Some \<lparr>complete = False, results = Some 0\<rparr>\<rparr>"
      and bn = "''test-builder''" and i = 0
      and srcs = "[]" and props = "[]" and sources' = "[]" and properties' = "[]"
      and u = "()" and wm = "echo (None, ''Triggering builder: <test-builder>'') example_world"
      and orepo = None and obranch = "''master''" and commit = None and pr = None and a = False]
    verdict_exit_status [where r = "\<lparr>complete = False, results = Some 0\<rparr>"
      and w = example_world
      and e = "example_env\<lparr>build_reply := None\<rparr>"
      and bn = "''test-builder''" and i = 0
      and srcs = "[]" and props = "[]" and sources' = "[]" and properties' = "[]"
      and u = "()" and wm = "echo (None, ''Triggering builder: <test-builder>'') example_world"
      and orepo = None and obranch = "''master''" and commit = None and pr = None and a = False]
  by (simp add: SUCCESS_def WARNINGS_def FAILURE_def EXCEPTION_def project_builder_def
      example_world_def example_project_def example_env_def dict_def mount_sources_def echo_def)

section \<open>The source stamp\<close>

lemma str_nat_42: "str_int 42 = ''42''"
  by (simp add: str_int_def str_nat.simps digit_char_def)

text \<open>
  Claim C2. With a pull request \<open>pr\<close>, the branch of the source stamp is
  \<open>refs/pull/<pr>/merge\<close> whatever branch was supplied (for 42 it is
  \<open>refs/pull/42/merge\<close>), and every build that the command triggers carries a stamp
  with this branch.
\<close>

theorem pull_request_branch:
  "branch (construct_sourcestamp p r b c (Some pr)) = ''refs/pull/'' @ str_int pr @ ''/merge'' \<and>
   branch (construct_sourcestamp p r b c (Some 42)) = ''refs/pull/42/merge'' \<and>
   (\<forall>(n, stamp, ps) \<in> set (drop (length (triggered w))
        (triggered (snd (project_build e bn r b c (Some pr) props srcs a w)))).
      branch stamp = ''refs/pull/'' @ str_int pr @ ''/merge'')"
proof -
  have 1: "branch (construct_sourcestamp p r b c (Some q)) = ''refs/pull/'' @ str_int q @ ''/merge''"
    for p r b c q
    by (simp add: construct_sourcestamp_def)
  have 2: "branch (construct_sourcestamp p r b c (Some 42)) = ''refs/pull/42/merge''"
    by (simp add: 1 str_nat_42)
  from project_build_triggered [of e bn r b c "Some pr" props srcs a w] 1 [of "proj w" r b c pr]
  have 3: "\<forall>(n, stamp, ps) \<in> set (drop (length (triggered w))
        (triggered (snd (project_build e bn r b c (Some pr) props srcs a w)))).
      branch stamp = ''refs/pull/'' @ str_int pr @ ''/merge''"
    by auto
  from 1 2 3 show ?thesis by blast
qed

text \<open>The witness: pull request 7 with the branch \<open>feature\<close> supplied.\<close>

theorem pull_request_branch_witness:
  "triggered (snd (project_build example_env ''test-builder'' None ''feature'' None (Some 7) [] []
      False example_world)) =
     [(''test-builder'',
       \<lparr>codebase = [], repository = ''https://example.org/arrow.git'',
        branch = ''refs/pull/7/merge'', revision = None, project = ''arrow''\<rparr>, [])]"
  using pull_request_branch [of example_project None "''feature''" None 7 example_world
      example_env "''test-builder''" "[]" "[]" False]
  by (simp add: project_build_def project_builder_def example_world_def example_project_def
      example_env_def dict_def mount_sources_def construct_sourcestamp_def run_def verdict_def
      echo_def handle_stdio_log_console SUCCESS_def str_int_def str_nat.simps digit_char_def)

text \<open>
  Claim C7. With no repository override and no pull request the source stamp is
  \<open>{codebase: '', repository: project.repo, branch: <the branch supplied>, revision:
  <the commit supplied, or None>, project: project.name}\<close>, for every commit string:
  nothing inspects the commit. Every build that the command triggers carries this
  stamp.
\<close>

theorem default_sourcestamp:
  "construct_sourcestamp p None b c None =
     \<lparr>codebase = '''', repository = repo p, branch = b, revision = c,
      project = project.name p\<rparr> \<and>
   (\<forall>(n, stamp, ps) \<in> set (drop (length (triggered w))
        (triggered (snd (project_build e bn None b c None props srcs a w)))).
      stamp = \<lparr>codebase = '''', repository = repo (proj w), branch = b, revision = c,
               project = project.name (proj w)\<rparr>)"
proof -
  have 1: "construct_sourcestamp p None b c None =
     \<lparr>codebase = '''', repository = repo p, branch = b, revision = c,
      project = project.name p\<rparr>" for p
    by (simp add: construct_sourcestamp_def)
  from project_build_triggered [of e bn None b c None props srcs a w] 1 [of "proj w"]
  have "\<forall>(n, stamp, ps) \<in> set (drop (length (triggered w))
        (triggered (snd (project_build e bn None b c None props srcs a w)))).
      stamp = \<lparr>codebase = '''', repository = repo (proj w), branch = b, revision = c,
               project = project.name (proj w)\<rparr>"
    by auto
  with 1 show ?thesis by blast
qed

text \<open>The witness: the branch \<open>main\<close>, once with no commit and once with a commit
  that is no commit id.\<close>

theorem default_sourcestamp_witness:
  "triggered (snd (project_build example_env ''test-builder'' None ''main'' None None [] []
      False example_world)) =
     [(''test-builder'',
       \<lparr>codebase = '''', repository = ''https://example.org/arrow.git'',
        branch = ''main'', revision = None, project = ''arrow''\<rparr>, [])] \<and>
   triggered (snd (project_build example_env ''test-builder'' None ''main'' (Some ''not a commit id'')
      None [] [] False example_world)) =
     [(''test-builder'',
       \<lparr>codebase = '''', repository = ''https://example.org/arrow.git'',
        branch = ''main'', revision = Some ''not a commit id'', project = ''arrow''\<rparr>, [])]"
  using default_sourcestamp [of example_project "''main''" None example_world
      example_env "''test-builder''" "[]" "[]" False]
  by (simp add: project_build_def project_builder_def example_world_def example_project_def
      example_env_def dict_def mount_sources_def construct_sourcestamp_def run_def verdict_def
      echo_def handle_stdio_log_console SUCCESS_def)

section \<open>The builder lookup\<close>

lemma join_contains: "x \<in> set xs \<Longrightarrow> \<exists>pre post. join sep xs = pre @ x @ post"
proof (induction sep xs rule: join.induct)
  case (1 sep)
  then show ?case by simp
next
  case (2 sep y)
  then have "join sep [y] = [] @ x @ []" by simp
  then show ?case by blast
next
  case (3 sep y z zs)
  show ?case
  proof (cases "x = y")
    case True
    then have "join sep (y # z # zs) = [] @ x @ (sep @ join sep (z # zs))" by simp
    then show ?thesis by blast
  next
    case False
    with 3 obtain pre post where "join sep (z # zs) = pre @ x @ post" by auto
    then have "join sep (y # z # zs) = (y @ sep @ pre) @ x @ post" by simp
    then show ?thesis by blast
  qed
qed

text \<open>
  Claim C6. When the requested builder name is not the name of any builder of the
  selected project, the command ends with a \<open>ClickException\<close> whose message lists
  every builder of the project, one \<open>- name\<close> line each, and the state of the process
  is what it was: no master was constructed or started and no build was triggered.
\<close>

theorem unknown_builder:
  assumes "bn \<notin> builder.name ` set (builders (proj w))"
  shows "project_build e bn r b c pr props srcs a w =
           (Inl (ClickException (no_such_builder (proj w) bn)), w) \<and>
         (\<forall>b' \<in> set (builders (proj w)).
            \<exists>pre post. no_such_builder (proj w) bn = pre @ '' - '' @ builder.name b' @ post)"
proof -
  from assms have "project_builder (proj w) bn = None"
    by (simp add: project_builder_def find_builder_None)
  then have 1: "project_build e bn r b c pr props srcs a w =
           (Inl (ClickException (no_such_builder (proj w) bn)), w)"
    by (simp add: project_build_def)
  have 2: "\<exists>pre post. no_such_builder (proj w) bn = pre @ '' - '' @ builder.name b' @ post"
    if "b' \<in> set (builders (proj w))" for b'
  proof -
    from that have "'' - '' @ builder.name b' \<in> set (map (\<lambda>b. '' - '' @ builder.name b) (builders (proj w)))"
      by auto
    from join_contains [OF this, of "''\<newline>''"]
    obtain pre post where "available (proj w) = pre @ ('' - '' @ builder.name b') @ post"
      by (auto simp: available_def)
    then have "no_such_builder (proj w) bn =
       (''Project '' @ project.name (proj w) @ '' doesn'' @ [CHR 0x27] @ ''t have a builder named ''
       @ [CHR 0x60] @ bn @ [CHR 0x60]
       @ ''.\<newline> Select one from the following list: \<newline>'' @ pre) @ '' - '' @ builder.name b' @ post"
      by (simp add: no_such_builder_def)
    then show ?thesis by blast
  qed
  from 1 2 show ?thesis by blast
qed

text \<open>The witness: the name \<open>nightly\<close>, which the example project does not have.\<close>

theorem unknown_builder_witness:
  "''nightly'' \<notin> builder.name ` set (builders (proj example_world)) \<and>
   project_build example_env ''nightly'' None ''master'' None None [] [] False example_world =
     (Inl (ClickException
        (''Project arrow doesn'' @ [CHR 0x27] @ ''t have a builder named '' @ [CHR 0x60] @
         ''nightly'' @ [CHR 0x60] @ ''.\<newline> Select one from the following list: \<newline>'' @
         '' - test-builder\<newline> - docker-builder'')), example_world)"
  using unknown_builder [of "''nightly''" example_world example_env None "''master''" None None
      "[]" "[]" False]
  by (simp add: example_world_def example_project_def no_such_builder_def available_def)

section \<open>Flags that do not parse, and mounts on a builder that cannot take them\<close>

text \<open>
  Claim C3, as stated, fails: mount sources supplied for a builder that is not a docker
  builder do not always end in the \<open>UsageError\<close>. The two flag conversions come before
  the check, so with the mount \<open>src:dst\<close> and the property \<open>debug\<close> (no \<open>=\<close>) on the
  plain builder the command ends in an uncaught \<open>ValueError\<close>.
\<close>

theorem mount_refused_counterexample:
  "project_builder (proj example_world) ''test-builder'' = Some 0 \<and>
   \<not> docker (builders (proj example_world) ! 0) \<and>
   dict (map (str_split (CHR '':'')) [''src:dst'']) = Inr [(''src'', ''dst'')] \<and>
   project_build example_env ''test-builder'' None ''master'' None None [''debug''] [''src:dst'']
       False example_world =
     (Inl ValueError, echo (None, ''Triggering builder: <test-builder>'') example_world)"
  by (simp add: project_build_def project_builder_def example_world_def example_project_def
      dict_def)

text \<open>
  Claim C3, amended. When the builder exists and is not a docker builder, at least one
  mount source is supplied, every mount source holds exactly one \<open>:\<close> and every property
  exactly one \<open>=\<close>, the command ends with the \<open>UsageError\<close> \<open>Mounting source directories
  is a feature only available for docker builders.\<close>, which names the feature and the
  kind of builder that has it. Only the line \<open>Triggering builder: ...\<close> has been echoed
  by then: the project and with it the builder's volumes are unchanged, no master was
  constructed or started, no build was triggered.
\<close>

theorem mount_refused:
  assumes "project_builder (proj w) bn = Some i"
    and "\<not> docker (builders (proj w) ! i)"
    and "srcs \<noteq> []"
    and "\<forall>s\<in>set srcs. count_list s (CHR '':'') = 1"
    and "\<forall>p\<in>set props. count_list p (CHR ''='') = 1"
  shows "project_build e bn r b c pr props srcs a w =
           (Inl (UsageError
              ''Mounting source directories is a feature only available for docker builders.''),
            echo (None, ''Triggering builder: '' @ display (builders (proj w) ! i)) w) \<and>
         proj (snd (project_build e bn r b c pr props srcs a w)) = proj w \<and>
         masters (snd (project_build e bn r b c pr props srcs a w)) = masters w \<and>
         started (snd (project_build e bn r b c pr props srcs a w)) = started w \<and>
         triggered (snd (project_build e bn r b c pr props srcs a w)) = triggered w"
proof -
  from dict_split_good [OF assms(4)] assms(3)
  obtain sources' where s: "dict (map (str_split (CHR '':'')) srcs) = Inr sources'" "sources' \<noteq> []"
    by auto
  from dict_split_good [OF assms(5)]
  obtain properties' where p: "dict (map (str_split (CHR ''='')) props) = Inr properties'"
    by auto
  from assms(1,2) s p have "project_build e bn r b c pr props srcs a w =
           (Inl (UsageError
              ''Mounting source directories is a feature only available for docker builders.''),
            echo (None, ''Triggering builder: '' @ display (builders (proj w) ! i)) w)"
    by (simp add: project_build_def mount_sources_def)
  then show ?thesis by simp
qed

text \<open>The witness: the plain builder of the example project with one mount and one
  property.\<close>

theorem mount_refused_witness:
  "project_builder (proj example_world) ''test-builder'' = Some 0 \<and>
   \<not> docker (builders (proj example_world) ! 0) \<and>
   count_list ''src:dst'' (CHR '':'') = 1 \<and> count_list ''debug=1'' (CHR ''='') = 1 \<and>
   project_build example_env ''test-builder'' None ''master'' None None [''debug=1'']
       [''src:dst''] False example_world =
     (Inl (UsageError
        ''Mounting source directories is a feature only available for docker builders.''),
      echo (None, ''Triggering builder: <test-builder>'') example_world)"
  using mount_refused [of example_world "''test-builder''" 0 "[''src:dst'']" "[''debug=1'']"
      example_env None "''master''" None None False]
  by (simp add: project_builder_def example_world_def example_project_def)

text \<open>
  Claim C10. When some property does not hold exactly one \<open>=\<close>, or some mount source
  does not hold exactly one \<open>:\<close>, the command ends with an error (the \<open>ValueError\<close> of
  \<open>dict\<close> when the builder exists, the unknown-builder error otherwise) and the project
  is unchanged, no master was constructed or started and no build was triggered. A
  flag is split at every separator: the number of pieces is one more than the number
  of separators in it, so a value that itself holds the separator gives three pieces
  or more.
\<close>

theorem malformed_flag:
  assumes "(\<exists>p\<in>set props. count_list p (CHR ''='') \<noteq> 1) \<or>
           (\<exists>s\<in>set srcs. count_list s (CHR '':'') \<noteq> 1)"
  shows "(\<exists>err. fst (project_build e bn r b c pr props srcs a w) = Inl err \<and>
            (project_builder (proj w) bn \<noteq> None \<longrightarrow> err = ValueError)) \<and>
         proj (snd (project_build e bn r b c pr props srcs a w)) = proj w \<and>
         masters (snd (project_build e bn r b c pr props srcs a w)) = masters w \<and>
         started (snd (project_build e bn r b c pr props srcs a w)) = started w \<and>
         triggered (snd (project_build e bn r b c pr props srcs a w)) = triggered w \<and>
         length (str_split (CHR ''='') x) = Suc (count_list x (CHR ''='')) \<and>
         length (str_split (CHR '':'') x) = Suc (count_list x (CHR '':''))"
proof (cases "project_builder (proj w) bn")
  case None
  then show ?thesis by (simp add: project_build_def length_str_split)
next
  case (Some i)
  show ?thesis
  proof (cases "\<exists>s\<in>set srcs. count_list s (CHR '':'') \<noteq> 1")
    case True
    from dict_split_bad [OF True] Some show ?thesis
      by (simp add: project_build_def length_str_split)
  next
    case False
    then have "\<forall>s\<in>set srcs. count_list s (CHR '':'') = 1" by blast
    from dict_split_good [OF this]
    obtain sources' where s: "dict (map (str_split (CHR '':'')) srcs) = Inr sources'" by auto
    from False assms have "\<exists>p\<in>set props. count_list p (CHR ''='') \<noteq> 1" by blast
    from dict_split_bad [OF this] Some s show ?thesis
      by (simp add: project_build_def length_str_split)
  qed
qed

text \<open>The witness: a property whose value holds \<open>=\<close>, and a mount source without
  \<open>:\<close>.\<close>

theorem malformed_flag_witness:
  "count_list ''CFLAGS=-O2=x'' (CHR ''='') = 2 \<and> count_list ''/src'' (CHR '':'') = 0 \<and>
   str_split (CHR ''='') ''CFLAGS=-O2=x'' = [''CFLAGS'', ''-O2'', ''x''] \<and>
   fst (project_build example_env ''docker-builder'' None ''master'' None None [''CFLAGS=-O2=x''] []
       False example_world) = Inl ValueError \<and>
   fst (project_build example_env ''docker-builder'' None ''master'' None None [] [''/src'']
       False example_world) = Inl ValueError \<and>
   triggered (snd (project_build example_env ''docker-builder'' None ''master'' None None
       [''CFLAGS=-O2=x''] [] False example_world)) = []"
  using malformed_flag [of "[''CFLAGS=-O2=x'']" "[]" example_env "''docker-builder''" None
      "''master''" None None False example_world]
    malformed_flag [of "[]" "[''/src'']" example_env "''docker-builder''" None
      "''master''" None None False example_world]
  by (simp add: project_builder_def example_world_def example_project_def)

section \<open>The volume injector\<close>

text \<open>
  Claim C5. Whenever \<open>_use_local_sources\<close> returns, the class attribute
  \<open>Source.notReally\<close> is \<open>True\<close>. The attribute belongs to the state of the process, not
  to the builder or to the build: when the build command has run the injector (a docker
  builder, a non-empty source mapping, a loop that got through, that is home
  directories that resolve and volume specifications that \<open>Interpolate\<close> accepts, the
  attribute present on the class), the attribute is still \<open>True\<close> in the state the
  command ends with, whatever the test master and the build did. When the loop of the
  injector raises, the injector does not return: the command ends with that exception,
  the attribute is what it was, and neither a master nor a build follows.
\<close>

theorem checkout_bypass_flag:
  "(use_local_sources e i sources w = (Inr u, w') \<longrightarrow> Source_notReally w' = Some True) \<and>
   (project_builder (proj w) bn = Some i \<and> docker (builders (proj w) ! i) \<and>
    dict (map (str_split (CHR '':'')) srcs) = Inr sources \<and> sources \<noteq> [] \<and>
    dict (map (str_split (CHR ''='')) props) = Inr properties' \<and>
    source_volumes e sources = Inr vs \<and> Source_notReally w = Some old \<longrightarrow>
    Source_notReally (snd (project_build e bn r b c pr props srcs a w)) = Some True) \<and>
   (source_volumes e sources = Inl err \<longrightarrow> use_local_sources e i sources w = (Inl err, w)) \<and>
   (project_builder (proj w) bn = Some i \<and> docker (builders (proj w) ! i) \<and>
    dict (map (str_split (CHR '':'')) srcs) = Inr sources \<and> sources \<noteq> [] \<and>
    dict (map (str_split (CHR ''='')) props) = Inr properties' \<and>
    source_volumes e sources = Inl err \<longrightarrow>
    fst (project_build e bn r b c pr props srcs a w) = Inl err \<and>
    Source_notReally (snd (project_build e bn r b c pr props srcs a w)) = Source_notReally w \<and>
    masters (snd (project_build e bn r b c pr props srcs a w)) = masters w \<and>
    triggered (snd (project_build e bn r b c pr props srcs a w)) = triggered w)"
proof -
  have 1: "Source_notReally w' = Some True" if "use_local_sources e i sources w = (Inr u, w')"
    for w w'
    using that
    by (auto simp: use_local_sources_def Let_def split: sum.splits option.splits)
  have 2: "Source_notReally (snd (project_build e bn r b c pr props srcs a w)) = Some True"
    if h: "project_builder (proj w) bn = Some i" "docker (builders (proj w) ! i)"
      "dict (map (str_split (CHR '':'')) srcs) = Inr sources" "sources \<noteq> []"
      "dict (map (str_split (CHR ''='')) props) = Inr properties'"
      "source_volumes e sources = Inr vs" "Source_notReally w = Some old"
  proof -
    let ?w1 = "echo (None, ''Triggering builder: '' @ display (builders (proj w) ! i)) w"
    let ?w2 = "(extend_volumes i vs ?w1)\<lparr>Source_notReally := Some True\<rparr>"
    have m: "mount_sources e i sources ?w1 = (Inr (), ?w2)"
      using h by (simp add: mount_sources_def use_local_sources_def)
    show ?thesis
    proof (cases "config_errors e")
      case (Some errs)
      with h m show ?thesis by (simp add: project_build_def)
    next
      case None
      let ?w3 = "?w2\<lparr>masters := masters ?w2 @ [if a then {FAILURE, EXCEPTION} else {}]\<rparr>"
      obtain res w4 where r: "run e (builder.name (builders (proj ?w3) ! i))
           (construct_sourcestamp (proj ?w2) r b c pr) properties' ?w3 = (res, w4)" by force
      obtain y w5 where v: "verdict res w4 = (y, w5)" by force
      have pb: "project_build e bn r b c pr props srcs a w = (y, w5)"
        using h m None r v by (simp add: project_build_def)
      from run_frame(3) [OF r] verdict_frame(5) [OF v] pb show ?thesis by simp
    qed
  qed
  have 3: "use_local_sources e i sources w = (Inl err, w)"
    if "source_volumes e sources = Inl err" for w
    using that by (simp add: use_local_sources_def)
  have 4: "fst (project_build e bn r b c pr props srcs a w) = Inl err \<and>
    Source_notReally (snd (project_build e bn r b c pr props srcs a w)) = Source_notReally w \<and>
    masters (snd (project_build e bn r b c pr props srcs a w)) = masters w \<and>
    triggered (snd (project_build e bn r b c pr props srcs a w)) = triggered w"
    if h: "project_builder (proj w) bn = Some i" "docker (builders (proj w) ! i)"
      "dict (map (str_split (CHR '':'')) srcs) = Inr sources" "sources \<noteq> []"
      "dict (map (str_split (CHR ''='')) props) = Inr properties'"
      "source_volumes e sources = Inl err"
    using h by (simp add: project_build_def mount_sources_def 3)
  from 1 2 3 [of w] 4 show ?thesis by blast
qed

text \<open>The witness: the docker builder of the example project and the mount
  \<open>~/arrow:arrow\<close>, in a process where the attribute was \<open>False\<close>; and the mount
  \<open>100%/x:dst\<close>, which \<open>Interpolate\<close> refuses, after which the attribute is still
  \<open>False\<close>.\<close>

theorem checkout_bypass_flag_witness:
  "use_local_sources example_env 1 [(''~/arrow'', ''arrow'')] example_world =
     (Inr (), (extend_volumes 1
        [Interpolate ''/home/me/arrow:%(prop:docker_workdir)s/%(prop:builddir)s/arrow:rw'']
        example_world)\<lparr>Source_notReally := Some True\<rparr>) \<and>
   Source_notReally example_world = Some False \<and>
   Source_notReally (snd (project_build example_env ''docker-builder'' None ''master'' None None []
      [''~/arrow:arrow''] False example_world)) = Some True \<and>
   source_volumes example_env [(''100%/x'', ''dst'')] = Inl ValueError \<and>
   fst (project_build example_env ''docker-builder'' None ''master'' None None []
      [''100%/x:dst''] False example_world) = Inl ValueError \<and>
   Source_notReally (snd (project_build example_env ''docker-builder'' None ''master'' None None []
      [''100%/x:dst''] False example_world)) = Some False"
  using checkout_bypass_flag [where e = example_env and i = 1
      and sources = "[(''~/arrow'', ''arrow'')]" and w = example_world and u = "()"
      and w' = "(extend_volumes 1
        [Interpolate ''/home/me/arrow:%(prop:docker_workdir)s/%(prop:builddir)s/arrow:rw'']
        example_world)\<lparr>Source_notReally := Some True\<rparr>"
      and bn = "''docker-builder''" and srcs = "[''~/arrow:arrow'']" and props = "[]"
      and properties' = "[]"
      and vs = "[Interpolate
        ''/home/me/arrow:%(prop:docker_workdir)s/%(prop:builddir)s/arrow:rw'']"
      and old = False and r = None and b = "''master''" and c = None and pr = None
      and a = False and err = ValueError]
    checkout_bypass_flag [where e = example_env and i = 1
      and sources = "[(''100%/x'', ''dst'')]" and w = example_world and u = "()"
      and w' = example_world
      and bn = "''docker-builder''" and srcs = "[''100%/x:dst'']" and props = "[]"
      and properties' = "[]" and vs = "[]"
      and old = False and r = None and b = "''master''" and c = None and pr = None
      and a = False and err = ValueError]
  by (simp add: use_local_sources_def example_env_def example_world_def example_project_def
      expanduser_def Path_def parse_parts_def splitroot_def path_str_def project_builder_def
      dict_def extend_volumes_def make_Interpolate_def volume_format_def)

section \<open>The log relay\<close>

lemma source_volumes_logs [simp]:
  "source_volumes (e\<lparr>log_records := l\<rparr>) s = source_volumes e s"
  by (induction e s rule: source_volumes.induct)
     (auto simp: make_Interpolate_def split: sum.splits option.splits)

lemma mount_sources_logs [simp]:
  "mount_sources (e\<lparr>log_records := l\<rparr>) i s w = mount_sources e i s w"
  by (simp add: mount_sources_def use_local_sources_def)

lemma verdict_console:
  "fst (verdict r (w\<lparr>console := cs\<rparr>)) = fst (verdict r w)"
  by (simp add: verdict_def split: option.splits sum.splits)

lemma run_logs:
  "\<exists>cs. run (e\<lparr>log_records := l\<rparr>) n st ps w =
     (fst (run e n st ps w), (snd (run e n st ps w))\<lparr>console := cs\<rparr>)"
proof (cases "master_starts e")
  case True
  then have "run (e\<lparr>log_records := l\<rparr>) n st ps w =
     (fst (run e n st ps w),
      (snd (run e n st ps w))\<lparr>console := console w @ map handle_line (concat l)\<rparr>)"
    by (simp add: run_def Let_def fold_handle_stdio_log)
  then show ?thesis by blast
next
  case False
  then have "run (e\<lparr>log_records := l\<rparr>) n st ps w =
     (fst (run e n st ps w), (snd (run e n st ps w))\<lparr>console := console w\<rparr>)"
    by (simp add: run_def)
  then show ?thesis by blast
qed

lemma project_build_logs:
  "fst (project_build (e\<lparr>log_records := l\<rparr>) bn r b c pr props srcs a w) =
   fst (project_build e bn r b c pr props srcs a w)"
proof -
  have "fst (case run (e\<lparr>log_records := l\<rparr>) n st ps w3 of (res, w4) \<Rightarrow> verdict res w4) =
        fst (case run e n st ps w3 of (res, w4) \<Rightarrow> verdict res w4)" for n st ps w3
  proof -
    obtain cs where "run (e\<lparr>log_records := l\<rparr>) n st ps w3 =
       (fst (run e n st ps w3), (snd (run e n st ps w3))\<lparr>console := cs\<rparr>)"
      using run_logs by blast
    then show ?thesis by (simp add: verdict_console split: prod.splits)
  qed
  then show ?thesis
    by (simp add: project_build_def Let_def split: option.splits sum.splits prod.splits)
qed

text \<open>
  Claim C8, as stated, fails: the four kinds of record do not each have a rendering of
  their own. A stdout record and a record of no known kind are both echoed unstyled,
  so \<open>oabc\<close> (stdout) and \<open>abc\<close> (no known prefix) come out as the same line.
\<close>

theorem log_treatment_counterexample:
  "startswith ''oabc'' ''o'' \<and>
   \<not> startswith ''abc'' ''h'' \<and> \<not> startswith ''abc'' ''e'' \<and> \<not> startswith ''abc'' ''o'' \<and>
   handle_line ''oabc'' = (None, ''abc'') \<and> handle_line ''abc'' = (None, ''abc'')"
  by (simp add: handle_line_def startswith_def)

text \<open>
  Claim C8, amended. A record is classified by its first character alone: \<open>h\<close> is
  echoed in blue, \<open>e\<close> in red and \<open>o\<close> unstyled, each without that character; any other
  record, the empty one too, is echoed unstyled and whole, so that stdout records and
  records of no known kind share the unstyled rendering. The handler echoes one line
  per record, in order, and changes nothing else; the result of the build command does
  not depend on the log records.
\<close>

theorem log_relay:
  "handle_line [] = (None, []) \<and>
   handle_line (CHR ''h'' # t) = (Some Blue, t) \<and>
   handle_line (CHR ''e'' # t) = (Some Red, t) \<and>
   handle_line (CHR ''o'' # t) = (None, t) \<and>
   (x \<noteq> CHR ''h'' \<and> x \<noteq> CHR ''e'' \<and> x \<noteq> CHR ''o'' \<longrightarrow> handle_line (x # t) = (None, x # t)) \<and>
   handle_stdio_log ls w = w\<lparr>console := console w @ map handle_line ls\<rparr> \<and>
   fst (project_build (e\<lparr>log_records := l\<rparr>) bn r b c pr props srcs a w) =
     fst (project_build e bn r b c pr props srcs a w)"
  by (simp add: handle_line_def startswith_def handle_stdio_log_console project_build_logs)

text \<open>The witness: a record of each kind, the unknown one beginning with \<open>x\<close>.\<close>

theorem log_relay_witness:
  "handle_line ''hyz'' = (Some Blue, ''yz'') \<and>
   handle_line ''eyz'' = (Some Red, ''yz'') \<and>
   handle_line ''oyz'' = (None, ''yz'') \<and>
   handle_line ''xyz'' = (None, ''xyz'') \<and>
   fst (project_build (example_env\<lparr>log_records := [[''xyz'']]\<rparr>) ''test-builder'' None
          ''master'' None None [] [] False example_world) =
     fst (project_build example_env ''test-builder'' None ''master'' None None [] [] False
          example_world)"
  using log_relay [where t = "''yz''" and x = "CHR ''x''" and ls = "[]" and w = example_world
      and e = example_env and l = "[[''xyz'']]" and bn = "''test-builder''" and r = None
      and b = "''master''" and c = None and pr = None and props = "[]" and srcs = "[]"
      and a = False]
  by simp

section \<open>Host paths and the order of the volumes\<close>

lemma is_absolute_Path: "is_absolute (Path src) \<longleftrightarrow> take 1 src = ''/''"
  by (cases src) (auto simp: is_absolute_def Path_def parse_parts_def splitroot_def Let_def)

lemma set_str_split: "x \<in> set (str_split sep s) \<Longrightarrow> set x \<subseteq> set s"
proof (induction s arbitrary: x)
  case Nil
  then show ?case by simp
next
  case (Cons c cs)
  show ?case
  proof (cases "c = sep")
    case True
    with Cons show ?thesis by auto
  next
    case False
    obtain w ws where ws: "str_split sep cs = w # ws"
      using str_split_not_Nil [of sep cs] by (cases "str_split sep cs") auto
    with False Cons.prems have "x = c # w \<or> x \<in> set ws" by simp
    then show ?thesis
    proof
      assume "x = c # w"
      moreover have "set w \<subseteq> set cs" using Cons.IH [of w] ws by simp
      ultimately show ?thesis by auto
    next
      assume "x \<in> set ws"
      then have "set x \<subseteq> set cs" using Cons.IH [of x] ws by simp
      then show ?thesis by auto
    qed
  qed
qed

lemma set_parts_Path: "x \<in> set (parts (Path src)) \<Longrightarrow> set x \<subseteq> set src"
proof -
  assume "x \<in> set (parts (Path src))"
  then have "x \<in> set (str_split (CHR ''/'') (snd (splitroot src)))"
    by (auto simp: Path_def parse_parts_def split: prod.splits)
  then have "set x \<subseteq> set (snd (splitroot src))" by (rule set_str_split)
  moreover have "set (snd (splitroot src)) \<subseteq> set src"
    by (auto simp: splitroot_def Let_def dest: set_dropWhileD)
  ultimately show ?thesis by blast
qed

lemma expanduser_no_tilde:
  assumes "CHR ''~'' \<notin> set src"
  shows "expanduser g (Path src) = Inr (Path src)"
proof -
  have "take 1 (hd (parts (Path src))) \<noteq> ''~''" if "parts (Path src) \<noteq> []"
  proof
    assume t: "take 1 (hd (parts (Path src))) = ''~''"
    then have "CHR ''~'' \<in> set (hd (parts (Path src)))"
      by (cases "hd (parts (Path src))") auto
    moreover from that have "hd (parts (Path src)) \<in> set (parts (Path src))" by simp
    ultimately show False using set_parts_Path assms by blast
  qed
  then show ?thesis by (auto simp: expanduser_def)
qed

lemma source_volumes_all2:
  "source_volumes e sources = Inr vs \<Longrightarrow>
   list_all2 (\<lambda>(src, dst) v. \<exists>p. expanduser (gethomedir e) (Path src) = Inr p \<and>
        interpolate_raises e (volume_format p dst) = None \<and>
        v = Interpolate (volume_format p dst))
     sources vs"
  by (induction e sources arbitrary: vs rule: source_volumes.induct)
     (auto simp: make_Interpolate_def split: sum.splits option.splits)

lemma all2_source_volumes:
  "list_all2 (\<lambda>(src, dst) v. \<exists>p. expanduser (gethomedir e) (Path src) = Inr p \<and>
        interpolate_raises e (volume_format p dst) = None \<and>
        v = Interpolate (volume_format p dst))
     sources vs \<Longrightarrow>
   source_volumes e sources = Inr vs"
  by (induction e sources arbitrary: vs rule: source_volumes.induct)
     (auto simp: make_Interpolate_def list_all2_Cons1)

lemma use_local_sources_volumes:
  assumes "source_volumes e sources = Inr vs" and "i < length (builders (proj w))"
  shows "volumes (builders (proj (snd (use_local_sources e i sources w))) ! i) =
           volumes (builders (proj w) ! i) @ vs"
  using assms
  by (auto simp: use_local_sources_def Let_def extend_volumes_builders split: option.splits)

text \<open>
  Claim C4, as stated, fails: the host path is not made absolute. \<open>expanduser\<close> leaves
  the relative path \<open>src\<close> as it is, and the volume added to the builder begins with
  \<open>src:\<close>.
\<close>

theorem absolute_host_path_counterexample:
  "expanduser (gethomedir example_env) (Path ''src'') = Inr (Path ''src'') \<and>
   path_str (Path ''src'') = ''src'' \<and>
   \<not> is_absolute (Path ''src'') \<and>
   volumes (builders (proj (snd (use_local_sources example_env 1 [(''src'', ''dst'')]
       example_world))) ! 1) =
     [Interpolate ''src:%(prop:docker_workdir)s/%(prop:builddir)s/dst:rw'']"
  by (simp add: use_local_sources_def example_env_def example_world_def example_project_def
      expanduser_def Path_def parse_parts_def splitroot_def path_str_def is_absolute_def
      extend_volumes_def make_Interpolate_def volume_format_def)

text \<open>
  Claim C4, amended. The loop of the injector gets through exactly when, for every
  entry of the source mapping, \<open>Path(src).expanduser()\<close> finds the home directory it
  needs and \<open>Interpolate\<close> accepts the volume specification. Then the builder's volume
  list is its old volume list followed by one volume specification per entry, in the
  mapping's order. The host path of each is the entry's path after
  \<open>Path(src).expanduser()\<close>, which replaces a leading \<open>~\<close> part by a home directory and
  resolves nothing else: a path without \<open>~\<close> is used as pathlib normalises it, and is
  absolute only when it was given with a leading slash. When the loop raises, the
  injector raises the same exception and nothing is appended.
\<close>

theorem volume_injection:
  assumes "i < length (builders (proj w))"
  shows "(source_volumes e sources = Inr vs \<longleftrightarrow>
            list_all2 (\<lambda>(src, dst) v. \<exists>p. expanduser (gethomedir e) (Path src) = Inr p \<and>
                interpolate_raises e
                  (path_str p @ '':%(prop:docker_workdir)s/%(prop:builddir)s/'' @ dst @ '':rw'')
                  = None \<and>
                v = Interpolate
                  (path_str p @ '':%(prop:docker_workdir)s/%(prop:builddir)s/'' @ dst @ '':rw''))
              sources vs) \<and>
         (source_volumes e sources = Inr vs \<longrightarrow>
            volumes (builders (proj (snd (use_local_sources e i sources w))) ! i) =
              volumes (builders (proj w) ! i) @ vs \<and>
            list_all2 (\<lambda>(src, dst) v. \<exists>p. expanduser (gethomedir e) (Path src) = Inr p \<and>
                v = Interpolate
                  (path_str p @ '':%(prop:docker_workdir)s/%(prop:builddir)s/'' @ dst @ '':rw'') \<and>
                (CHR ''~'' \<notin> set src \<longrightarrow>
                   p = Path src \<and> (is_absolute p \<longleftrightarrow> take 1 src = ''/'')))
              sources vs) \<and>
         (source_volumes e sources = Inl err \<longrightarrow>
            use_local_sources e i sources w = (Inl err, w))"
proof -
  have 1: "source_volumes e sources = Inr vs \<longleftrightarrow>
            list_all2 (\<lambda>(src, dst) v. \<exists>p. expanduser (gethomedir e) (Path src) = Inr p \<and>
                interpolate_raises e
                  (path_str p @ '':%(prop:docker_workdir)s/%(prop:builddir)s/'' @ dst @ '':rw'')
                  = None \<and>
                v = Interpolate
                  (path_str p @ '':%(prop:docker_workdir)s/%(prop:builddir)s/'' @ dst @ '':rw''))
              sources vs"
    using source_volumes_all2 [of e sources vs] all2_source_volumes [of e sources vs]
    unfolding volume_format_def by blast
  have 2: "list_all2 (\<lambda>(src, dst) v. \<exists>p. expanduser (gethomedir e) (Path src) = Inr p \<and>
                v = Interpolate
                  (path_str p @ '':%(prop:docker_workdir)s/%(prop:builddir)s/'' @ dst @ '':rw'') \<and>
                (CHR ''~'' \<notin> set src \<longrightarrow>
                   p = Path src \<and> (is_absolute p \<longleftrightarrow> take 1 src = ''/'')))
              sources vs"
    if h: "source_volumes e sources = Inr vs"
    using source_volumes_all2 [OF h]
    by (rule list_all2_mono)
       (auto simp: expanduser_no_tilde is_absolute_Path volume_format_def)
  have 3: "use_local_sources e i sources w = (Inl err, w)"
    if "source_volumes e sources = Inl err"
    using that by (simp add: use_local_sources_def)
  from 1 2 3 use_local_sources_volumes [OF _ assms, of e sources vs] show ?thesis
    by blast
qed

text \<open>The witness: the docker builder of the example project with a relative mount and
  a mount under the home directory; a mount under the home directory of a user that
  does not exist, and a host path with a percent sign that \<open>Interpolate\<close> refuses, after
  which the builder has the volumes it had.\<close>

theorem volume_injection_witness:
  "(1::nat) < length (builders (proj example_world)) \<and>
   source_volumes example_env [(''src'', ''dst''), (''~/arrow'', ''arrow'')] =
     Inr [Interpolate ''src:%(prop:docker_workdir)s/%(prop:builddir)s/dst:rw'',
          Interpolate ''/home/me/arrow:%(prop:docker_workdir)s/%(prop:builddir)s/arrow:rw''] \<and>
   volumes (builders (proj (snd (use_local_sources example_env 1
       [(''src'', ''dst''), (''~/arrow'', ''arrow'')] example_world))) ! 1) =
     [Interpolate ''src:%(prop:docker_workdir)s/%(prop:builddir)s/dst:rw'',
      Interpolate ''/home/me/arrow:%(prop:docker_workdir)s/%(prop:builddir)s/arrow:rw''] \<and>
   source_volumes example_env [(''src'', ''dst''), (''~nobody/arrow'', ''arrow'')] =
     Inl RuntimeError \<and>
   use_local_sources example_env 1 [(''src'', ''dst''), (''~nobody/arrow'', ''arrow'')]
       example_world = (Inl RuntimeError, example_world) \<and>
   source_volumes example_env [(''100%/x'', ''dst'')] = Inl ValueError \<and>
   use_local_sources example_env 1 [(''100%/x'', ''dst'')] example_world =
     (Inl ValueError, example_world)"
  using volume_injection [where e = example_env and i = 1
      and sources = "[(''src'', ''dst''), (''~/arrow'', ''arrow'')]" and w = example_world
      and vs = "[Interpolate ''src:%(prop:docker_workdir)s/%(prop:builddir)s/dst:rw'',
          Interpolate ''/home/me/arrow:%(prop:docker_workdir)s/%(prop:builddir)s/arrow:rw'']"
      and err = RuntimeError]
    volume_injection [where e = example_env and i = 1
      and sources = "[(''src'', ''dst''), (''~nobody/arrow'', ''arrow'')]" and w = example_world
      and vs = "[]" and err = RuntimeError]
    volume_injection [where e = example_env and i = 1
      and sources = "[(''100%/x'', ''dst'')]" and w = example_world
      and vs = "[]" and err = ValueError]
  by (simp add: use_local_sources_def example_env_def example_world_def example_project_def
      expanduser_def Path_def parse_parts_def splitroot_def path_str_def extend_volumes_def
      make_Interpolate_def volume_format_def)

section \<open>Matching image descriptors\<close>

lemma matches_Filter:
  "matches a (Filter ps) = (\<forall>(k, p) \<in> set ps. matches (lookup (attributes a) k) p)"
  by (auto simp: list_all_iff)

text \<open>
  Claim C9. A descriptor matches a filter exactly when every attribute the filter lists
  matches the descriptor's attribute of that name, where a listed attribute may itself
  be a filter over a nested group; a filter that lists nothing matches everything; and
  attributes the filter does not list play no part: two descriptors that agree on the
  listed attributes match alike.
\<close>

theorem filter_matches:
  "matches (Some (Group d)) (Filter ps) = (\<forall>(k, p) \<in> set ps. matches (lookup d k) p) \<and>
   matches a (Filter []) \<and>
   ((\<forall>k \<in> fst ` set ps. lookup d k = lookup d' k) \<longrightarrow>
      matches (Some (Group d)) (Filter ps) = matches (Some (Group d')) (Filter ps))"
  by (auto simp: list_all_iff attributes_def)

text \<open>The witness: the example image against a filter on its name and its nested
  platform, against a filter it fails, and against the filter the \<open>docker\<close> command
  builds from its default patterns with \<open>--no-variant\<close>.\<close>

theorem filter_matches_witness:
  "matches (Some (Group example_image))
     (Filter [(''name'', Matching (Some ''c*'')),
              (''platform'', Filter [(''arch'', Matching (Some ''amd??''))])]) \<and>
   \<not> matches (Some (Group example_image)) (Filter [(''tag'', Matching (Some ''master''))]) \<and>
   matches (Some (Group example_image)) (image_filter ''*'' ''*'' ''*'' True ''*'' ''*'' ''*'') \<and>
   matches (Some (Group example_image)) (Filter [])"
  using filter_matches [where d = example_image and d' = example_image
      and ps = "[(''name'', Matching (Some ''c*'')),
              (''platform'', Filter [(''arch'', Matching (Some ''amd??''))])]"
      and a = "Some (Group example_image)"]
  by (simp add: example_image_def image_filter_def attributes_def)

end
